theory Spec2Isabelle
  imports Main "HOL-Library.Monad_Syntax"
begin

section \<open>Strings of the host language\<close>

text \<open>
  A JavaScript string is modelled as a \<^typ>\<open>string\<close> whose characters are its code
  units; the model covers strings whose code units are below 256. The helpers below are
  the string primitives the service calls: \<^verbatim>\<open>Array.prototype.join\<close>,
  \<^verbatim>\<open>String.prototype.trim\<close>, \<^verbatim>\<open>includes\<close>, \<^verbatim>\<open>endsWith\<close>, the
  conversion of an integer-valued number to its decimal text, and the character classes
  of the regular expressions in the source.
\<close>

definition newline :: string where
  "newline = [CHR 0x0A]"

fun join :: "string \<Rightarrow> string list \<Rightarrow> string" where
  "join sep [] = []"
| "join sep [x] = x"
| "join sep (x # y # ys) = x @ sep @ join sep (y # ys)"

definition digit_char :: "nat \<Rightarrow> char" where
  "digit_char n = ''0123456789'' ! (n mod 10)"

function showNat :: "nat \<Rightarrow> string" where
  "showNat n = (if n < 10 then [digit_char n] else showNat (n div 10) @ [digit_char n])"
  by pat_completeness auto
termination
  by (relation "measure id") auto

declare showNat.simps [simp del]

text \<open>Number to string for an integer-valued number (of magnitude below \<open>10^21\<close>).\<close>

definition showInt :: "int \<Rightarrow> string" where
  "showInt i = (if i < 0 then CHR ''-'' # showNat (nat (- i)) else showNat (nat i))"

text \<open>\<^verbatim>\<open>\s\<close> of a regular expression and the characters \<^verbatim>\<open>trim()\<close> removes.\<close>

definition is_space :: "char \<Rightarrow> bool" where
  "is_space c = (c \<in> set [CHR 0x09, CHR 0x0A, CHR 0x0B, CHR 0x0C, CHR 0x0D, CHR 0x20, CHR 0xA0])"

definition is_digit :: "char \<Rightarrow> bool" where
  "is_digit c = (c \<in> set ''0123456789'')"

definition is_letter :: "char \<Rightarrow> bool" where
  "is_letter c = (c \<in> set ''abcdefghijklmnopqrstuvwxyzABCDEFGHIJKLMNOPQRSTUVWXYZ'')"

text \<open>\<^verbatim>\<open>\w\<close> of a regular expression.\<close>

definition is_word :: "char \<Rightarrow> bool" where
  "is_word c = (is_letter c \<or> is_digit c \<or> c = CHR ''_'')"

definition trim :: "string \<Rightarrow> string" where
  "trim s = rev (dropWhile is_space (rev (dropWhile is_space s)))"

fun starts_with :: "string \<Rightarrow> string \<Rightarrow> bool" where
  "starts_with s [] = True"
| "starts_with [] (p # ps) = False"
| "starts_with (c # cs) (p # ps) = (c = p \<and> starts_with cs ps)"

definition endsWith :: "string \<Rightarrow> string \<Rightarrow> bool" where
  "endsWith s p = starts_with (rev s) (rev p)"

fun includes_str :: "string \<Rightarrow> string \<Rightarrow> bool" where
  "includes_str [] p = (p = [])"
| "includes_str (c # cs) p = (starts_with (c # cs) p \<or> includes_str cs p)"

section \<open>Runtime values\<close>

text \<open>
  A runtime value of the host language, as far as the service observes it. The service
  never inspects the inside of an object: it asks for the result of
  \<^verbatim>\<open>JSON.stringify(value, null, 2)\<close>, for the result of \<^verbatim>\<open>value.toString()\<close> and for
  the property \<^verbatim>\<open>value.message\<close>. An object (arrays and error objects included) is
  therefore modelled by these three observations; \<open>Inl e\<close> says that the operation
  raises the value \<open>e\<close>. Numbers are the integer-valued ones. Symbols and big integers
  as values of their own, and objects whose serialization is \<^verbatim>\<open>undefined\<close>, are
  outside the model.
\<close>

datatype jsval =
    JNull
  | JUndefined
  | JBool bool
  | JNum int
  | JStr string
  | JFun string
  | JObject (stringified: "jsval + string") (toString_result: "jsval + string") (message_prop: jsval)

text \<open>The value \<^verbatim>\<open>new E(msg)\<close> for an error constructor named \<open>name\<close>.\<close>

definition mkError :: "string \<Rightarrow> string \<Rightarrow> jsval" where
  "mkError name msg =
     JObject (Inr ''{}'') (Inr (if msg = [] then name else name @ '': '' @ msg)) (JStr msg)"

text \<open>The property read \<^verbatim>\<open>err.message\<close>; on null and undefined it raises a TypeError.\<close>

fun get_message :: "jsval \<Rightarrow> jsval + jsval" where
  "get_message JNull =
     Inl (mkError ''TypeError'' ''Cannot read properties of null (reading 'message')'')"
| "get_message JUndefined =
     Inl (mkError ''TypeError'' ''Cannot read properties of undefined (reading 'message')'')"
| "get_message (JObject j t m) = Inr m"
| "get_message v = Inr JUndefined"

text \<open>\<^verbatim>\<open>String(value)\<close>, also the conversion a template literal applies.\<close>

fun String :: "jsval \<Rightarrow> jsval + string" where
  "String JNull = Inr ''null''"
| "String JUndefined = Inr ''undefined''"
| "String (JBool b) = Inr (if b then ''true'' else ''false'')"
| "String (JNum n) = Inr (showInt n)"
| "String (JStr s) = Inr s"
| "String (JFun src) = Inr src"
| "String (JObject j t m) = t"

text \<open>The \<^verbatim>\<open>typeof\<close> operator.\<close>

fun typeof :: "jsval \<Rightarrow> string" where
  "typeof JNull = ''object''"
| "typeof JUndefined = ''undefined''"
| "typeof (JBool b) = ''boolean''"
| "typeof (JNum n) = ''number''"
| "typeof (JStr s) = ''string''"
| "typeof (JFun src) = ''function''"
| "typeof (JObject j t m) = ''object''"

section \<open>The value formatter\<close>

text \<open>
  \<^verbatim>\<open>formatOutput(value)\<close>: null, undefined, then objects through
  \<^verbatim>\<open>JSON.stringify\<close> with \<^verbatim>\<open>value.toString()\<close> in the catch clause, then
  \<^verbatim>\<open>String(value)\<close>. The result is \<open>Inl e\<close> when the call raises \<open>e\<close>.
\<close>

definition formatOutput :: "jsval \<Rightarrow> jsval + string" where
  "formatOutput v =
     (if v = JNull then Inr ''null''
      else if v = JUndefined then Inr ''undefined''
      else if typeof v = ''object'' then
        (case stringified v of Inr s \<Rightarrow> Inr s | Inl e \<Rightarrow> toString_result v)
      else String v)"

text \<open>\<^verbatim>\<open>args.map(arg => this.formatOutput(arg))\<close>: the first raise ends the map.\<close>

fun formatAll :: "jsval list \<Rightarrow> jsval + string list" where
  "formatAll [] = Inr []"
| "formatAll (v # vs) =
     (case formatOutput v of
        Inl e \<Rightarrow> Inl e
      | Inr s \<Rightarrow> (case formatAll vs of Inl e \<Rightarrow> Inl e | Inr ss \<Rightarrow> Inr (s # ss)))"

section \<open>Regular-expression replacement\<close>

text \<open>
  \<^verbatim>\<open>s.replace(/re/g, rep)\<close>: the string is scanned from the left; where the expression
  matches, the match is replaced and the scan goes on behind it. A matcher returns the
  rest of the string behind a match that starts at the first character. None of the
  expressions of the source matches the empty string, so the guard on the length of the
  rest is always true (see the lemmas \<open>match_*_shorter\<close>).
\<close>

function replace_all :: "(string \<Rightarrow> string option) \<Rightarrow> string \<Rightarrow> string \<Rightarrow> string" where
  "replace_all m rep [] = []"
| "replace_all m rep (c # cs) =
     (case m (c # cs) of
        None \<Rightarrow> c # replace_all m rep cs
      | Some rest \<Rightarrow>
          if length rest < length (c # cs) then rep @ replace_all m rep rest
          else c # replace_all m rep cs)"
  by pat_completeness auto
termination
  by (relation "measure (\<lambda>(m, rep, s). length s)") auto

fun lit :: "string \<Rightarrow> string \<Rightarrow> string option" where
  "lit [] s = Some s"
| "lit (p # ps) [] = None"
| "lit (p # ps) (c # cs) = (if c = p then lit ps cs else None)"

definition many1 :: "(char \<Rightarrow> bool) \<Rightarrow> string \<Rightarrow> string option" where
  "many1 P s = (if takeWhile P s = [] then None else Some (dropWhile P s))"

definition many :: "(char \<Rightarrow> bool) \<Rightarrow> string \<Rightarrow> string option" where
  "many P s = Some (dropWhile P s)"

text \<open>The class \<^verbatim>\<open>[a-zA-Z<>\[\]{}|&]\<close>.\<close>

definition is_type_char :: "char \<Rightarrow> bool" where
  "is_type_char c = (is_letter c \<or> c \<in> set ''<>[]{}|&'')"

text \<open>\<^verbatim>\<open>/:\s*[a-zA-Z<>\[\]{}|&]+/\<close>\<close>

definition match_annotation :: "string \<Rightarrow> string option" where
  "match_annotation s = do { a \<leftarrow> lit '':'' s; b \<leftarrow> many is_space a; many1 is_type_char b }"

text \<open>\<^verbatim>\<open>/interface\s+\w+\s*{[^}]*}/\<close>\<close>

definition match_interface :: "string \<Rightarrow> string option" where
  "match_interface s = do {
     a \<leftarrow> lit ''interface'' s; b \<leftarrow> many1 is_space a; c \<leftarrow> many1 is_word b;
     d \<leftarrow> many is_space c; e \<leftarrow> lit ''{'' d; f \<leftarrow> many (\<lambda>x. x \<noteq> CHR ''}'') e;
     lit ''}'' f }"

text \<open>\<^verbatim>\<open>/type\s+\w+\s*=\s*[^;]+;/\<close>; the class \<^verbatim>\<open>[^;]\<close> contains the white space.\<close>

definition match_type_alias :: "string \<Rightarrow> string option" where
  "match_type_alias s = do {
     a \<leftarrow> lit ''type'' s; b \<leftarrow> many1 is_space a; c \<leftarrow> many1 is_word b;
     d \<leftarrow> many is_space c; e \<leftarrow> lit ''='' d; f \<leftarrow> many1 (\<lambda>x. x \<noteq> CHR '';'') e;
     lit '';'' f }"

text \<open>\<^verbatim>\<open>/<[^>]*>/\<close>\<close>

definition match_generic :: "string \<Rightarrow> string option" where
  "match_generic s = do { a \<leftarrow> lit ''<'' s; b \<leftarrow> many (\<lambda>x. x \<noteq> CHR ''>'') a; lit ''>'' b }"

text \<open>\<^verbatim>\<open>/>\s*</\<close>, \<^verbatim>\<open>/{\s*/\<close> and \<^verbatim>\<open>/;\s*}/\<close> of the formatters.\<close>

definition match_tag_gap :: "string \<Rightarrow> string option" where
  "match_tag_gap s = do { a \<leftarrow> lit ''>'' s; b \<leftarrow> many is_space a; lit ''<'' b }"

definition match_open_brace :: "string \<Rightarrow> string option" where
  "match_open_brace s = do { a \<leftarrow> lit ''{'' s; many is_space a }"

definition match_close_brace :: "string \<Rightarrow> string option" where
  "match_close_brace s = do { a \<leftarrow> lit '';'' s; b \<leftarrow> many is_space a; lit ''}'' b }"

section \<open>The formatters\<close>

record FormatResult =
  code :: string
  changes :: "string list"

definition formatJavaScript :: "string \<Rightarrow> FormatResult" where
  "formatJavaScript c =
     (if \<not> endsWith (trim c) '';'' \<and> \<not> endsWith (trim c) ''}''
      then \<lparr>code = c @ '';'', changes = [''Added missing semicolon'']\<rparr>
      else \<lparr>code = c, changes = []\<rparr>)"

text \<open>
  \<^verbatim>\<open>JSON.parse\<close> and \<^verbatim>\<open>JSON.stringify(parsed, null, 2)\<close> belong to the host
  language, not to the service: the functions that call them take them as the parameters
  \<open>parse\<close> (\<open>Inl\<close> the message of the SyntaxError it raises) and \<open>stringify\<close>.
\<close>

definition formatJSON ::
  "(string \<Rightarrow> string + 'j) \<Rightarrow> ('j \<Rightarrow> string) \<Rightarrow> string \<Rightarrow> jsval + FormatResult" where
  "formatJSON parse stringify c =
     (case parse c of
        Inr parsed \<Rightarrow>
          Inr \<lparr>code = stringify parsed, changes = [''Formatted JSON with proper indentation'']\<rparr>
      | Inl msg \<Rightarrow> Inl (mkError ''Error'' (''Invalid JSON: '' @ msg)))"

definition formatHTML :: "string \<Rightarrow> FormatResult" where
  "formatHTML c =
     \<lparr>code = replace_all match_tag_gap (''>'' @ newline @ ''<'') c,
      changes = [''Added line breaks between HTML tags'']\<rparr>"

definition formatCSS :: "string \<Rightarrow> FormatResult" where
  "formatCSS c =
     \<lparr>code = replace_all match_close_brace ('';'' @ newline @ ''}'')
               (replace_all match_open_brace ('' {'' @ newline @ ''  '') c),
      changes = [''Added proper CSS formatting'']\<rparr>"

text \<open>The text \<^verbatim>\<open>`${e.message}`\<close> for a caught value \<open>e\<close>.\<close>

definition message_text :: "jsval \<Rightarrow> jsval + string" where
  "message_text e = (case get_message e of Inl t \<Rightarrow> Inl t | Inr m \<Rightarrow> String m)"

definition formatCode ::
  "(string \<Rightarrow> string + 'j) \<Rightarrow> ('j \<Rightarrow> string) \<Rightarrow> string \<Rightarrow> string \<Rightarrow> jsval + FormatResult" where
  "formatCode parse stringify c lang =
     (case (if lang = ''javascript'' then Inr (formatJavaScript c)
            else if lang = ''json'' then formatJSON parse stringify c
            else if lang = ''html'' then Inr (formatHTML c)
            else if lang = ''css'' then Inr (formatCSS c)
            else Inr \<lparr>code = c, changes = []\<rparr>) of
        Inr res \<Rightarrow> Inr res
      | Inl e \<Rightarrow>
          (case message_text e of
             Inl t \<Rightarrow> Inl t
           | Inr msg \<Rightarrow> Inl (mkError ''Error'' (''Code formatting failed: '' @ msg))))"

section \<open>The sandbox\<close>

text \<open>
  The isolated interpreter (\<^verbatim>\<open>VM\<close> of the library vm2) is not code of the service. A run
  of a script in it is modelled by what the service can observe of it: the interpreter
  calls a method of the sandbox's \<^verbatim>\<open>console\<close> with some arguments and goes on with
  what the method returned or raised, any finite number of times, and in the end the
  script completes with a value or raises one (running out of time raises an error
  object), leaving the sandbox in a new state. The type \<open>'g\<close> is the state of the
  sandbox that a run can read and change. A script may raise any value, \<^verbatim>\<open>null\<close>
  included, and the interpreter passes it on to its caller. The sandbox also hands the
  script the clock and a random source, and the interpreter stops a run by the wall
  clock: these are not modelled, so the model says what a call does with the outcome of
  a run and with the state it leaves, not that two runs of a script agree.
\<close>

datatype console_method = Log | Error | Warn | Info | Debug

datatype completion = Normal jsval | Throw jsval

datatype 'g run =
    Done completion 'g
  | Console console_method "jsval list" "completion \<Rightarrow> 'g run"

record ('g, 'j) host =
  vm_run :: "string \<Rightarrow> 'g \<Rightarrow> 'g run"
  JSON_parse :: "string \<Rightarrow> string + 'j"
  JSON_stringify :: "'j \<Rightarrow> string"

section \<open>The code runner\<close>

record 'g CodeRunner =
  timeout :: int
  maxCodeLength :: int
  vm :: 'g

text \<open>
  \<^verbatim>\<open>parseInt(process.env.X) || 10000\<close>: the argument is what \<^verbatim>\<open>parseInt\<close> returned,
  \<open>None\<close> for NaN. The constructor builds the one interpreter of the runner around the
  sandbox \<open>sandbox\<close> that \<^verbatim>\<open>createSafeSandbox()\<close> returned; the module exports one
  runner, built when the module is loaded.
\<close>

definition or_default :: "int option \<Rightarrow> int \<Rightarrow> int" where
  "or_default parsed d = (case parsed of None \<Rightarrow> d | Some n \<Rightarrow> if n = 0 then d else n)"

definition constructor :: "int option \<Rightarrow> int option \<Rightarrow> 'g \<Rightarrow> 'g CodeRunner" where
  "constructor env_timeout env_max sandbox =
     \<lparr>timeout = or_default env_timeout 10000,
      maxCodeLength = or_default env_max 10000,
      vm = sandbox\<rparr>"

record ExecutionResult =
  "output" :: string
  error :: jsval
  executionTime :: string
  language :: string
  success :: bool

text \<open>
  The console methods that \<^verbatim>\<open>executeJavaScript\<close> installs: each pushes one line onto
  the array \<open>out\<close> of the call and returns what \<^verbatim>\<open>push\<close> returns, the new length.
\<close>

fun prefix_of :: "console_method \<Rightarrow> string" where
  "prefix_of Log = []"
| "prefix_of Error = ''ERROR: ''"
| "prefix_of Warn = ''WARN: ''"
| "prefix_of Info = ''INFO: ''"
| "prefix_of Debug = ''DEBUG: ''"

definition console_call :: "console_method \<Rightarrow> jsval list \<Rightarrow> string list \<Rightarrow> jsval + string list" where
  "console_call m args out =
     (case formatAll args of
        Inl e \<Rightarrow> Inl e
      | Inr ss \<Rightarrow> Inr (out @ [prefix_of m @ join '' '' ss]))"

text \<open>\<^verbatim>\<open>this.vm.run(code)\<close> with these console methods in place.\<close>

primrec drive :: "'g run \<Rightarrow> string list \<Rightarrow> completion \<times> 'g \<times> string list" where
  "drive (Done c g) out = (c, g, out)"
| "drive (Console m args k) out =
     (case console_call m args out of
        Inl e \<Rightarrow> drive (k (Throw e)) out
      | Inr out' \<Rightarrow> drive (k (Normal (JNum (int (length out'))))) out')"

text \<open>
  A strategy returns the lines of its output or raises; the strategies that run the
  script also return the runner, whose interpreter the run has changed.
\<close>

definition executeJavaScript ::
  "('g, 'j) host \<Rightarrow> 'g CodeRunner \<Rightarrow> string \<Rightarrow> string \<Rightarrow> (jsval + string list) \<times> 'g CodeRunner" where
  "executeJavaScript h r c inp =
     (case drive (vm_run h c (vm r)) [] of
        (Throw e, g, out) \<Rightarrow> (Inl e, r\<lparr>vm := g\<rparr>)
      | (Normal result, g, out) \<Rightarrow>
          if result \<noteq> JUndefined then
            (case formatOutput result of
               Inl e \<Rightarrow> (Inl e, r\<lparr>vm := g\<rparr>)
             | Inr s \<Rightarrow> (Inr (out @ [s]), r\<lparr>vm := g\<rparr>))
          else (Inr out, r\<lparr>vm := g\<rparr>))"

definition strip_types :: "string \<Rightarrow> string" where
  "strip_types c =
     replace_all match_generic []
       (replace_all match_type_alias []
         (replace_all match_interface []
           (replace_all match_annotation [] c)))"

definition executeTypeScript ::
  "('g, 'j) host \<Rightarrow> 'g CodeRunner \<Rightarrow> string \<Rightarrow> string \<Rightarrow> (jsval + string list) \<times> 'g CodeRunner" where
  "executeTypeScript h r c inp =
     (case (if includes_str c ''interface'' \<or> includes_str c ''type'' \<or> includes_str c '':''
            then executeJavaScript h r (strip_types c) inp
            else executeJavaScript h r c inp) of
        (Inr out, r') \<Rightarrow> (Inr out, r')
      | (Inl e, r') \<Rightarrow>
          (case message_text e of
             Inl t \<Rightarrow> (Inl t, r')
           | Inr msg \<Rightarrow> (Inl (mkError ''Error'' (''TypeScript execution failed: '' @ msg)), r')))"

definition executePython :: "string \<Rightarrow> string \<Rightarrow> jsval + string list" where
  "executePython c inp =
     Inr [''Python execution is not yet implemented in this demo version.'',
          ''Code received:'',
          c,
          ''Input received: '' @ inp]"

definition executeHTML :: "string \<Rightarrow> jsval + string list" where
  "executeHTML c =
     Inr [''HTML Preview:'', ''```html'', c, ''```'', [],
          ''Note: This is a preview. To see the rendered result, copy the HTML to a file and open it in a browser.'']"

definition executeCSS :: "string \<Rightarrow> jsval + string list" where
  "executeCSS c =
     Inr [''CSS Code:'', ''```css'', c, ''```'', [],
          ''Note: This is a preview. To see the rendered result, copy the CSS to a file and link it to an HTML document.'']"

definition executeJSON :: "('g, 'j) host \<Rightarrow> string \<Rightarrow> jsval + string list" where
  "executeJSON h c =
     (case JSON_parse h c of
        Inr parsed \<Rightarrow> Inr [''Valid JSON:'', ''```json'', JSON_stringify h parsed, ''```'']
      | Inl msg \<Rightarrow> Inl (mkError ''Error'' (''Invalid JSON: '' @ msg)))"

definition executeMarkdown :: "string \<Rightarrow> jsval + string list" where
  "executeMarkdown c =
     Inr [''Markdown Preview:'', ''```markdown'', c, ''```'', [],
          ''Note: This is a preview. To see the rendered result, copy the markdown to a file and open it in a markdown viewer.'']"

text \<open>The body of the \<^verbatim>\<open>try\<close> block of \<^verbatim>\<open>executeCode\<close>.\<close>

definition dispatch ::
  "('g, 'j) host \<Rightarrow> 'g CodeRunner \<Rightarrow> string \<Rightarrow> string \<Rightarrow> string \<Rightarrow>
     (jsval + string list) \<times> 'g CodeRunner" where
  "dispatch h r c lang inp =
     (if int (length c) > maxCodeLength r then
        (Inl (mkError ''Error''
               (''Code too long. Maximum allowed: '' @ showInt (maxCodeLength r) @ '' characters'')), r)
      else if lang = ''javascript'' then executeJavaScript h r c inp
      else if lang = ''typescript'' then executeTypeScript h r c inp
      else if lang = ''python'' then (executePython c inp, r)
      else if lang = ''html'' then (executeHTML c, r)
      else if lang = ''css'' then (executeCSS c, r)
      else if lang = ''json'' then (executeJSON h c, r)
      else if lang = ''markdown'' then (executeMarkdown c, r)
      else (Inl (mkError ''Error'' (''Unsupported language: '' @ lang)), r))"

text \<open>
  \<^verbatim>\<open>executeCode(code, language, input = '')\<close>. \<open>inp\<close> is \<open>None\<close> when the caller
  passes no input; \<open>t0\<close> and \<open>t1\<close> are the two readings of \<^verbatim>\<open>Date.now()\<close> of the
  call. The variable \<open>out0\<close> is the \<^verbatim>\<open>output\<close> of \<^verbatim>\<open>executeCode\<close>: it is assigned
  when a strategy returns, and the \<^verbatim>\<open>catch\<close> clause reads it. The result is \<open>Inl e\<close>
  when the call itself raises \<open>e\<close> (the promise is rejected).
\<close>

definition executeCode ::
  "('g, 'j) host \<Rightarrow> 'g CodeRunner \<Rightarrow> string \<Rightarrow> string \<Rightarrow> string option \<Rightarrow> int \<Rightarrow> int \<Rightarrow>
     (jsval + ExecutionResult) \<times> 'g CodeRunner" where
  "executeCode h r c lang inp t0 t1 =
     (let out0 = [] in
      case dispatch h r c lang (case inp of None \<Rightarrow> [] | Some i \<Rightarrow> i) of
        (Inr out1, r') \<Rightarrow>
          (Inr \<lparr>output = join newline out1, error = JNull,
                executionTime = showInt (t1 - t0) @ ''ms'', language = lang, success = True\<rparr>, r')
      | (Inl err, r') \<Rightarrow>
          (case get_message err of
             Inl t \<Rightarrow> (Inl t, r')
           | Inr msg \<Rightarrow>
               (Inr \<lparr>output = join newline out0, error = msg,
                     executionTime = showInt (t1 - t0) @ ''ms'', language = lang, success = False\<rparr>, r')))"

section \<open>A model of the interpreter on a fragment of JavaScript\<close>

text \<open>
  For evaluating the service on concrete scripts, the interpreter is modelled on scripts
  of the following shape: statements separated by semicolons, with single spaces as the
  only white space; a statement is a call of a console method, \<^verbatim>\<open>throw e\<close>, an
  assignment \<^verbatim>\<open>x = e\<close> to a global variable or an expression \<^verbatim>\<open>e\<close>; an expression is
  \<^verbatim>\<open>null\<close>, \<^verbatim>\<open>undefined\<close>, a decimal number, a string in double quotes without escapes,
  a variable, \<^verbatim>\<open>typeof x\<close> or \<^verbatim>\<open>new Error("...")\<close>; a variable is one letter (no
  keyword and no name of the sandbox is one letter long). The script runs in sloppy mode
  in the context of the interpreter, which lives as long as the interpreter: an
  assignment to an undeclared variable creates a property of the global object. The
  state of the sandbox is the map of these properties.
\<close>

datatype token = TIdent string | TNumber int | TString string | TPunct char

datatype expr =
  ENull | EUndefined | ENum int | EStr string | EVar string | ETypeof string | ENewError string

datatype stmt =
  SConsole console_method "expr list" | SThrow expr | SAssign string expr | SExpr expr

primrec digits_value :: "string \<Rightarrow> int \<Rightarrow> int" where
  "digits_value [] acc = acc"
| "digits_value (c # cs) acc =
     digits_value cs (10 * acc + int (length (takeWhile (\<lambda>d. d \<noteq> c) ''0123456789'')))"

definition number_ok :: "string \<Rightarrow> bool" where
  "number_ok ds =
     (if ds = [] then False
      else if hd ds = CHR ''0'' then length ds = 1
      else length ds \<le> 15)"

function tokenize :: "string \<Rightarrow> token list option" where
  "tokenize [] = Some []"
| "tokenize (c # cs) =
     (if c = CHR '' '' then tokenize cs
      else if c \<in> set ''();=.,'' then map_option (Cons (TPunct c)) (tokenize cs)
      else if is_letter c then
        map_option (Cons (TIdent (c # takeWhile is_word cs))) (tokenize (dropWhile is_word cs))
      else if is_digit c then
        (if number_ok (c # takeWhile is_word cs) \<and> list_all is_digit (takeWhile is_word cs)
         then map_option (Cons (TNumber (digits_value (c # takeWhile is_word cs) 0)))
                (tokenize (dropWhile is_word cs))
         else None)
      else if c = CHR 0x22 then
        (if dropWhile (\<lambda>x. x \<noteq> CHR 0x22) cs = [] then None
         else if list_all (\<lambda>x. x \<noteq> CHR 0x5C \<and> x \<noteq> CHR 0x0A \<and> x \<noteq> CHR 0x0D)
                   (takeWhile (\<lambda>x. x \<noteq> CHR 0x22) cs)
         then map_option (Cons (TString (takeWhile (\<lambda>x. x \<noteq> CHR 0x22) cs)))
                (tokenize (tl (dropWhile (\<lambda>x. x \<noteq> CHR 0x22) cs)))
         else None)
      else None)"
  by pat_completeness auto
termination
proof (relation "measure length")
  show "wf (measure length)" by simp
next
  fix c :: char and cs :: string
  show "(cs, c # cs) \<in> measure length" by simp
  show "(cs, c # cs) \<in> measure length" by simp
  have le: "length (dropWhile is_word cs) \<le> length cs"
    by (rule length_dropWhile_le)
  show "(dropWhile is_word cs, c # cs) \<in> measure length" using le by simp
  show "(dropWhile is_word cs, c # cs) \<in> measure length" using le by simp
  have "length (tl (dropWhile (\<lambda>x. x \<noteq> CHR 0x22) cs)) \<le> length (dropWhile (\<lambda>x. x \<noteq> CHR 0x22) cs)"
    by simp
  also have "\<dots> \<le> length cs" by (rule length_dropWhile_le)
  finally show "(tl (dropWhile (\<lambda>x. x \<noteq> CHR 0x22) cs), c # cs) \<in> measure length" by simp
qed

declare tokenize.simps [simp del]

text \<open>The statements between the semicolons; an empty statement has no effect.\<close>

fun split_on :: "token \<Rightarrow> token list \<Rightarrow> token list list" where
  "split_on sep [] = [[]]"
| "split_on sep (t # ts) =
     (if t = sep then [] # split_on sep ts
      else (case split_on sep ts of [] \<Rightarrow> [[t]] | g # gs \<Rightarrow> (t # g) # gs))"

definition is_variable :: "string \<Rightarrow> bool" where
  "is_variable x = (length x = 1 \<and> list_all is_letter x)"

definition parse_expr :: "token list \<Rightarrow> expr option" where
  "parse_expr ts =
     (case ts of
        [t] \<Rightarrow>
          (case t of
             TNumber n \<Rightarrow> Some (ENum n)
           | TString s \<Rightarrow> Some (EStr s)
           | TIdent x \<Rightarrow>
               if x = ''null'' then Some ENull
               else if x = ''undefined'' then Some EUndefined
               else if is_variable x then Some (EVar x)
               else None
           | TPunct p \<Rightarrow> None)
      | [t1, t2] \<Rightarrow>
          (case t2 of
             TIdent x \<Rightarrow> if t1 = TIdent ''typeof'' \<and> is_variable x then Some (ETypeof x) else None
           | _ \<Rightarrow> None)
      | [t1, t2, t3, t4, t5] \<Rightarrow>
          (case t4 of
             TString s \<Rightarrow>
               if t1 = TIdent ''new'' \<and> t2 = TIdent ''Error'' \<and> t3 = TPunct (CHR ''('')
                  \<and> t5 = TPunct (CHR '')'')
               then Some (ENewError s) else None
           | _ \<Rightarrow> None)
      | _ \<Rightarrow> None)"

fun those_exprs :: "expr option list \<Rightarrow> expr list option" where
  "those_exprs [] = Some []"
| "those_exprs (None # es) = None"
| "those_exprs (Some e # es) = map_option (Cons e) (those_exprs es)"

definition method_of :: "string \<Rightarrow> console_method option" where
  "method_of m =
     (if m = ''log'' then Some Log
      else if m = ''error'' then Some Error
      else if m = ''warn'' then Some Warn
      else if m = ''info'' then Some Info
      else if m = ''debug'' then Some Debug
      else None)"

definition parse_args :: "token list \<Rightarrow> expr list option" where
  "parse_args ts =
     (if ts = [] then None
      else if last ts = TPunct (CHR '')'') then
        (if butlast ts = [] then Some []
         else those_exprs (map parse_expr (split_on (TPunct (CHR '','')) (butlast ts))))
      else None)"

definition parse_stmt :: "token list \<Rightarrow> stmt option" where
  "parse_stmt ts =
     (case ts of
        TIdent k # rest \<Rightarrow>
          if k = ''console'' then
            (case rest of
               t1 # TIdent m # t3 # args \<Rightarrow>
                 if t1 = TPunct (CHR ''.'') \<and> t3 = TPunct (CHR ''('')
                 then (case method_of m of
                         None \<Rightarrow> None
                       | Some cm \<Rightarrow> map_option (SConsole cm) (parse_args args))
                 else None
             | _ \<Rightarrow> None)
          else if k = ''throw'' then map_option SThrow (parse_expr rest)
          else if is_variable k \<and> rest \<noteq> [] \<and> hd rest = TPunct (CHR ''='')
          then map_option (SAssign k) (parse_expr (tl rest))
          else map_option SExpr (parse_expr ts)
      | _ \<Rightarrow> map_option SExpr (parse_expr ts))"

fun those_stmts :: "stmt option list \<Rightarrow> stmt list option" where
  "those_stmts [] = Some []"
| "those_stmts (None # ss) = None"
| "those_stmts (Some s # ss) = map_option (Cons s) (those_stmts ss)"

definition parse_script :: "string \<Rightarrow> stmt list option" where
  "parse_script c =
     (case tokenize c of
        None \<Rightarrow> None
      | Some ts \<Rightarrow>
          those_stmts (map parse_stmt (filter (\<lambda>g. g \<noteq> []) (split_on (TPunct (CHR '';'')) ts))))"

type_synonym globals = "string \<Rightarrow> jsval option"

fun eval :: "expr \<Rightarrow> globals \<Rightarrow> jsval + jsval" where
  "eval ENull g = Inr JNull"
| "eval EUndefined g = Inr JUndefined"
| "eval (ENum n) g = Inr (JNum n)"
| "eval (EStr s) g = Inr (JStr s)"
| "eval (EVar x) g =
     (case g x of
        Some v \<Rightarrow> Inr v
      | None \<Rightarrow> Inl (mkError ''ReferenceError'' (x @ '' is not defined'')))"
| "eval (ETypeof x) g =
     (case g x of Some v \<Rightarrow> Inr (JStr (typeof v)) | None \<Rightarrow> Inr (JStr ''undefined''))"
| "eval (ENewError s) g = Inr (mkError ''Error'' s)"

fun eval_all :: "expr list \<Rightarrow> globals \<Rightarrow> jsval + jsval list" where
  "eval_all [] g = Inr []"
| "eval_all (e # es) g =
     (case eval e g of
        Inl t \<Rightarrow> Inl t
      | Inr v \<Rightarrow> (case eval_all es g of Inl t \<Rightarrow> Inl t | Inr vs \<Rightarrow> Inr (v # vs)))"

text \<open>
  The run of a list of statements; \<open>v\<close> is the value of the last statement run so far,
  which is the value of the script when the list ends.
\<close>

fun exec :: "stmt list \<Rightarrow> globals \<Rightarrow> jsval \<Rightarrow> globals run" where
  "exec [] g v = Done (Normal v) g"
| "exec (SThrow e # ss) g v =
     (case eval e g of Inl t \<Rightarrow> Done (Throw t) g | Inr x \<Rightarrow> Done (Throw x) g)"
| "exec (SAssign x e # ss) g v =
     (case eval e g of Inl t \<Rightarrow> Done (Throw t) g | Inr w \<Rightarrow> exec ss (g(x \<mapsto> w)) w)"
| "exec (SExpr e # ss) g v =
     (case eval e g of Inl t \<Rightarrow> Done (Throw t) g | Inr w \<Rightarrow> exec ss g w)"
| "exec (SConsole m es # ss) g v =
     (case eval_all es g of
        Inl t \<Rightarrow> Done (Throw t) g
      | Inr vs \<Rightarrow>
          Console m vs (\<lambda>reply. case reply of Normal w \<Rightarrow> exec ss g w | Throw t \<Rightarrow> Done (Throw t) g))"

text \<open>
  A script outside the fragment is not modelled; the run then raises an error object
  that says so, and no evaluation below uses such a script.
\<close>

definition fragment_run :: "string \<Rightarrow> globals \<Rightarrow> globals run" where
  "fragment_run c g =
     (case parse_script c of
        Some prog \<Rightarrow> exec prog g JUndefined
      | None \<Rightarrow> Done (Throw (mkError ''SyntaxError'' ''script outside the modelled fragment'')) g)"

section \<open>A model of the JSON functions on a fragment of JSON\<close>

text \<open>
  For evaluating the service on concrete texts, \<^verbatim>\<open>JSON.parse\<close> and
  \<^verbatim>\<open>JSON.stringify(parsed, null, 2)\<close> are modelled on the texts built from
  \<^verbatim>\<open>null\<close>, \<^verbatim>\<open>true\<close>, \<^verbatim>\<open>false\<close>, integers of at most 15 digits, strings of
  printable ASCII characters without escapes, arrays and objects (no key made of digits
  only, since the host orders such keys first). Of the messages of the parser only the
  one for a text that ends too early is modelled, \<^verbatim>\<open>Unexpected end of JSON input\<close>;
  the text of the other messages depends on the version of the host.
\<close>

datatype json =
  JsonNull | JsonBool bool | JsonNum int | JsonStr string | JsonArr "json list"
  | JsonObj "(string \<times> json) list"

datatype jtoken = JLit json | JKey string | JPunct char

definition is_plain_char :: "char \<Rightarrow> bool" where
  "is_plain_char c = (c \<in> set '' !#$%&()*+,-./:;<=>?@[]^_`{|}~'' \<or> c = CHR 0x27 \<or> is_letter c \<or> is_digit c)"

definition word_token :: "string \<Rightarrow> jtoken option" where
  "word_token w =
     (if w = ''null'' then Some (JLit JsonNull)
      else if w = ''true'' then Some (JLit (JsonBool True))
      else if w = ''false'' then Some (JLit (JsonBool False))
      else if number_ok w \<and> list_all is_digit w then Some (JLit (JsonNum (digits_value w 0)))
      else None)"

definition is_number_char :: "char \<Rightarrow> bool" where
  "is_number_char c = (is_word c \<or> c \<in> set ''.+-'')"

function json_tokens :: "string \<Rightarrow> jtoken list option" where
  "json_tokens [] = Some []"
| "json_tokens (c # cs) =
     (if c \<in> set [CHR 0x20, CHR 0x09, CHR 0x0A, CHR 0x0D] then json_tokens cs
      else if c \<in> set ''{}[]:,'' then map_option (Cons (JPunct c)) (json_tokens cs)
      else if c = CHR 0x22 then
        (if dropWhile (\<lambda>x. x \<noteq> CHR 0x22) cs = [] then None
         else if list_all is_plain_char (takeWhile (\<lambda>x. x \<noteq> CHR 0x22) cs)
         then map_option (Cons (JKey (takeWhile (\<lambda>x. x \<noteq> CHR 0x22) cs)))
                (json_tokens (tl (dropWhile (\<lambda>x. x \<noteq> CHR 0x22) cs)))
         else None)
      else if c = CHR ''-'' then
        (case word_token (takeWhile is_number_char cs) of
           Some (JLit (JsonNum n)) \<Rightarrow>
             map_option (Cons (JLit (JsonNum (- n)))) (json_tokens (dropWhile is_number_char cs))
         | _ \<Rightarrow> None)
      else
        (case word_token (c # takeWhile is_number_char cs) of
           Some t \<Rightarrow> map_option (Cons t) (json_tokens (dropWhile is_number_char cs))
         | None \<Rightarrow> None))"
  by pat_completeness auto
termination
proof (relation "measure length")
  show "wf (measure length)" by simp
next
  fix c :: char and cs :: string
  show "(cs, c # cs) \<in> measure length" by simp
  show "(cs, c # cs) \<in> measure length" by simp
  have "length (tl (dropWhile (\<lambda>x. x \<noteq> CHR 0x22) cs)) \<le> length (dropWhile (\<lambda>x. x \<noteq> CHR 0x22) cs)"
    by simp
  also have "\<dots> \<le> length cs" by (rule length_dropWhile_le)
  finally show "(tl (dropWhile (\<lambda>x. x \<noteq> CHR 0x22) cs), c # cs) \<in> measure length" by simp
  have le: "length (dropWhile is_number_char cs) \<le> length cs"
    by (rule length_dropWhile_le)
  show "(dropWhile is_number_char cs, c # cs) \<in> measure length" using le by simp
  show "(dropWhile is_number_char cs, c # cs) \<in> measure length" using le by simp
qed

declare json_tokens.simps [simp del]

text \<open>
  The result of a parser on a list of tokens: a value and the tokens behind it, the end
  of the text where more was expected, or a token that cannot stand where it is.
\<close>

datatype 'a parsed = Ok 'a "jtoken list" | Eof | Bad

text \<open>
  \<^verbatim>\<open>obj[k] = v\<close> while an object is built: a key that is there already keeps its
  place and takes the new value.
\<close>

fun set_member :: "string \<Rightarrow> json \<Rightarrow> (string \<times> json) list \<Rightarrow> (string \<times> json) list" where
  "set_member k v [] = [(k, v)]"
| "set_member k v ((k', v') # ms) =
     (if k = k' then (k, v) # ms else (k', v') # set_member k v ms)"

text \<open>
  The descent carries a bound on its depth, taken from the number of tokens; a descent
  that exhausts the bound is reported like a token out of place, and the text then
  counts as not modelled.
\<close>

fun parse_value :: "nat \<Rightarrow> jtoken list \<Rightarrow> json parsed"
  and parse_elems :: "nat \<Rightarrow> jtoken list \<Rightarrow> json list \<Rightarrow> json parsed"
  and parse_members :: "nat \<Rightarrow> jtoken list \<Rightarrow> (string \<times> json) list \<Rightarrow> json parsed" where
  "parse_value 0 ts = Bad"
| "parse_value (Suc n) [] = Eof"
| "parse_value (Suc n) (t # ts) =
     (case t of
        JLit v \<Rightarrow> Ok v ts
      | JKey s \<Rightarrow> Ok (JsonStr s) ts
      | JPunct p \<Rightarrow>
          if p = CHR ''['' then
            (if ts \<noteq> [] \<and> hd ts = JPunct (CHR '']'') then Ok (JsonArr []) (tl ts)
             else parse_elems n ts [])
          else if p = CHR ''{'' then
            (if ts \<noteq> [] \<and> hd ts = JPunct (CHR ''}'') then Ok (JsonObj []) (tl ts)
             else parse_members n ts [])
          else Bad)"
| "parse_elems 0 ts acc = Bad"
| "parse_elems (Suc n) ts acc =
     (case parse_value n ts of
        Ok v rest \<Rightarrow>
          (if rest = [] then Eof
           else if hd rest = JPunct (CHR '','') then parse_elems n (tl rest) (acc @ [v])
           else if hd rest = JPunct (CHR '']'') then Ok (JsonArr (acc @ [v])) (tl rest)
           else Bad)
      | Eof \<Rightarrow> Eof
      | Bad \<Rightarrow> Bad)"
| "parse_members 0 ts acc = Bad"
| "parse_members (Suc n) ts acc =
     (case ts of
        [] \<Rightarrow> Eof
      | t # ts1 \<Rightarrow>
          (case t of
             JKey k \<Rightarrow>
               (if ts1 = [] then Eof
                else if hd ts1 \<noteq> JPunct (CHR '':'') then Bad
                else
                  (case parse_value n (tl ts1) of
                     Ok v rest \<Rightarrow>
                       (if rest = [] then Eof
                        else if hd rest = JPunct (CHR '','')
                        then parse_members n (tl rest) (set_member k v acc)
                        else if hd rest = JPunct (CHR ''}'')
                        then Ok (JsonObj (set_member k v acc)) (tl rest)
                        else Bad)
                   | Eof \<Rightarrow> Eof
                   | Bad \<Rightarrow> Bad))
           | _ \<Rightarrow> Bad))"

fun index_keys :: "json \<Rightarrow> bool"
  and index_keys_list :: "json list \<Rightarrow> bool"
  and index_keys_members :: "(string \<times> json) list \<Rightarrow> bool" where
  "index_keys (JsonArr vs) = index_keys_list vs"
| "index_keys (JsonObj ms) = index_keys_members ms"
| "index_keys JsonNull = False"
| "index_keys (JsonBool b) = False"
| "index_keys (JsonNum n) = False"
| "index_keys (JsonStr s) = False"
| "index_keys_list [] = False"
| "index_keys_list (v # vs) = (index_keys v \<or> index_keys_list vs)"
| "index_keys_members [] = False"
| "index_keys_members (m # ms) =
     (if fst m = [] then index_keys (snd m) \<or> index_keys_members ms
      else list_all is_digit (fst m) \<or> index_keys (snd m) \<or> index_keys_members ms)"

datatype parse_outcome = Parsed json | Truncated | Unmodelled

definition parse_json :: "string \<Rightarrow> parse_outcome" where
  "parse_json c =
     (case json_tokens c of
        None \<Rightarrow> Unmodelled
      | Some ts \<Rightarrow>
          (case parse_value (Suc (2 * length ts)) ts of
             Ok v rest \<Rightarrow> if rest = [] \<and> \<not> index_keys v then Parsed v else Unmodelled
           | Eof \<Rightarrow> Truncated
           | Bad \<Rightarrow> Unmodelled))"

text \<open>\<^verbatim>\<open>JSON.stringify(v, null, 2)\<close>; \<open>i\<close> is the indentation of the line of the value.\<close>

fun stringify :: "nat \<Rightarrow> json \<Rightarrow> string"
  and stringify_elems :: "nat \<Rightarrow> json list \<Rightarrow> string"
  and stringify_members :: "nat \<Rightarrow> (string \<times> json) list \<Rightarrow> string" where
  "stringify i JsonNull = ''null''"
| "stringify i (JsonBool b) = (if b then ''true'' else ''false'')"
| "stringify i (JsonNum n) = showInt n"
| "stringify i (JsonStr s) = [CHR 0x22] @ s @ [CHR 0x22]"
| "stringify i (JsonArr vs) =
     (if vs = [] then ''[]''
      else ''['' @ newline @ stringify_elems (i + 2) vs @ newline @ replicate i (CHR '' '') @ '']'')"
| "stringify i (JsonObj ms) =
     (if ms = [] then ''{}''
      else ''{'' @ newline @ stringify_members (i + 2) ms @ newline @ replicate i (CHR '' '') @ ''}'')"
| "stringify_elems i [] = []"
| "stringify_elems i (v # vs) =
     replicate i (CHR '' '') @ stringify i v
       @ (if vs = [] then [] else '','' @ newline @ stringify_elems i vs)"
| "stringify_members i [] = []"
| "stringify_members i (m # ms) =
     replicate i (CHR '' '') @ [CHR 0x22] @ fst m @ [CHR 0x22] @ '': '' @ stringify i (snd m)
       @ (if ms = [] then [] else '','' @ newline @ stringify_members i ms)"

text \<open>The host of the evaluations: the two models and, for a text outside them, a marker.\<close>

definition fragment_parse :: "string \<Rightarrow> string + json" where
  "fragment_parse c =
     (case parse_json c of
        Parsed v \<Rightarrow> Inr v
      | Truncated \<Rightarrow> Inl ''Unexpected end of JSON input''
      | Unmodelled \<Rightarrow> Inl ''text outside the modelled fragment'')"

definition fragment_host :: "(globals, json) host" where
  "fragment_host =
     \<lparr>vm_run = fragment_run, JSON_parse = fragment_parse, JSON_stringify = stringify 0\<rparr>"

section \<open>Observations and example inputs\<close>

text \<open>What a caller sees of a call when the timing field is left out.\<close>

definition observable :: "jsval + ExecutionResult \<Rightarrow> jsval + string \<times> jsval \<times> bool" where
  "observable x = map_sum id (\<lambda>res. (output res, error res, success res)) x"

text \<open>
  The runner the module exports, with no configuration in the environment, over the
  interpreter of the fragment, whose sandbox has no property written by a script yet.
\<close>

definition module_runner :: "globals CodeRunner" where
  "module_runner = constructor None None Map.empty"



definition faulting :: string where
  "faulting = ''console.log(\"hi\"); throw new Error(\"boom\")''"

text \<open>
  An object that \<^verbatim>\<open>JSON.stringify\<close> rejects and that has no \<^verbatim>\<open>toString\<close> method, such
  as \<^verbatim>\<open>o = Object.create(null); o.n = 1n\<close>.
\<close>

definition unprintable :: jsval where
  "unprintable =
     JObject (Inl (mkError ''TypeError'' ''Do not know how to serialize a BigInt''))
             (Inl (mkError ''TypeError'' ''value.toString is not a function''))
             JUndefined"

text \<open>A code of 10001 characters, and a script with a colon inside a string.\<close>

definition long_code :: string where
  "long_code = replicate 10001 (CHR ''a'')"

definition colon_script :: string where
  "colon_script = ''console.log(\"a:b\")''"

section \<open>The regular expressions consume what they match\<close>

lemma lit_length: "lit p s = Some r \<Longrightarrow> length s = length p + length r"
  by (induction p s rule: lit.induct) (auto split: if_splits)

lemma many_length: "many P s = Some r \<Longrightarrow> length r \<le> length s"
  by (auto simp add: many_def length_dropWhile_le)

lemma many1_length: "many1 P s = Some r \<Longrightarrow> length r \<le> length s"
  by (auto simp add: many1_def length_dropWhile_le split: if_splits)

lemma match_annotation_shorter: "match_annotation s = Some r \<Longrightarrow> length r < length s"
  by (auto simp add: match_annotation_def split: Option.bind_splits
        dest!: lit_length many_length many1_length)

lemma match_interface_shorter: "match_interface s = Some r \<Longrightarrow> length r < length s"
  by (auto simp add: match_interface_def split: Option.bind_splits
        dest!: lit_length many_length many1_length)

lemma match_type_alias_shorter: "match_type_alias s = Some r \<Longrightarrow> length r < length s"
  by (auto simp add: match_type_alias_def split: Option.bind_splits
        dest!: lit_length many_length many1_length)

lemma match_generic_shorter: "match_generic s = Some r \<Longrightarrow> length r < length s"
  by (auto simp add: match_generic_def split: Option.bind_splits
        dest!: lit_length many_length many1_length)

lemma match_tag_gap_shorter: "match_tag_gap s = Some r \<Longrightarrow> length r < length s"
  by (auto simp add: match_tag_gap_def split: Option.bind_splits
        dest!: lit_length many_length many1_length)

lemma match_open_brace_shorter: "match_open_brace s = Some r \<Longrightarrow> length r < length s"
  by (auto simp add: match_open_brace_def split: Option.bind_splits
        dest!: lit_length many_length many1_length)

lemma match_close_brace_shorter: "match_close_brace s = Some r \<Longrightarrow> length r < length s"
  by (auto simp add: match_close_brace_def split: Option.bind_splits
        dest!: lit_length many_length many1_length)

text \<open>So for these expressions the scan always goes on behind the match.\<close>

lemma replace_all_step:
  assumes "\<And>s r. m s = Some r \<Longrightarrow> length r < length s"
  shows "replace_all m rep (c # cs) =
     (case m (c # cs) of
        None \<Rightarrow> c # replace_all m rep cs
      | Some rest \<Rightarrow> rep @ replace_all m rep rest)"
  using assms [of "c # cs"] by (auto split: option.splits)

section \<open>What a call returns and what it leaves behind\<close>


lemma executeJavaScript_snd:
  "snd (executeJavaScript h r c i) = r\<lparr>vm := fst (snd (drive (vm_run h c (vm r)) []))\<rparr>"
  by (simp add: executeJavaScript_def split: prod.splits completion.splits sum.splits)

lemma executeTypeScript_snd:
  "snd (executeTypeScript h r c i) =
     snd (executeJavaScript h r
            (if includes_str c ''interface'' \<or> includes_str c ''type'' \<or> includes_str c '':''
             then strip_types c else c) i)"
  by (simp add: executeTypeScript_def split: prod.splits sum.splits)

lemma executeCode_snd:
  "snd (executeCode h r c lang inp t0 t1) =
     snd (dispatch h r c lang (case inp of None \<Rightarrow> [] | Some i \<Rightarrow> i))"
  by (simp add: executeCode_def Let_def split: prod.splits sum.splits)

lemma executeTypeScript_fst_eq:
  "fst (executeTypeScript h r c i) =
     (case fst (executeJavaScript h r
                 (if includes_str c ''interface'' \<or> includes_str c ''type'' \<or> includes_str c '':''
                  then strip_types c else c) i) of
        Inr out \<Rightarrow> Inr out
      | Inl e \<Rightarrow>
          (case message_text e of
             Inl t \<Rightarrow> Inl t
           | Inr msg \<Rightarrow> Inl (mkError ''Error'' (''TypeScript execution failed: '' @ msg))))"
  by (simp add: executeTypeScript_def split: prod.splits sum.splits)

text \<open>
  The result of \<^verbatim>\<open>executeCode\<close> in terms of what the \<^verbatim>\<open>try\<close> block did. In the
  \<^verbatim>\<open>catch\<close> clause the \<^verbatim>\<open>output\<close> of \<^verbatim>\<open>executeCode\<close> is still the empty array.
\<close>

lemma executeCode_fst_eq:
  "fst (executeCode h r c lang inp t0 t1) =
     (case fst (dispatch h r c lang (case inp of None \<Rightarrow> [] | Some i \<Rightarrow> i)) of
        Inr out1 \<Rightarrow>
          Inr \<lparr>output = join newline out1, error = JNull,
               executionTime = showInt (t1 - t0) @ ''ms'', language = lang, success = True\<rparr>
      | Inl err \<Rightarrow>
          (case get_message err of
             Inl t \<Rightarrow> Inl t
           | Inr msg \<Rightarrow>
               Inr \<lparr>output = [], error = msg,
                    executionTime = showInt (t1 - t0) @ ''ms'', language = lang, success = False\<rparr>))"
  by (simp add: executeCode_def Let_def split: prod.splits sum.splits)



section \<open>Determinism and the shared sandbox\<close>




text \<open>
  C2, as the code has it: the runner has one sandbox, made by its constructor. A call
  for javascript or typescript whose code is within the length limit runs the script
  (for typescript after the textual rewrite) in that sandbox as the earlier calls left
  it, with console methods that push onto an array that is empty when the call starts,
  and leaves the sandbox as the script left it; every other call leaves the runner as
  it was.
\<close>

theorem sandbox_shared_across_calls:
  "snd (executeCode h r c lang inp t0 t1) =
     (if int (length c) > maxCodeLength r then r
      else if lang = ''javascript'' then
        r\<lparr>vm := fst (snd (drive (vm_run h c (vm r)) []))\<rparr>
      else if lang = ''typescript'' then
        r\<lparr>vm := fst (snd (drive (vm_run h
               (if includes_str c ''interface'' \<or> includes_str c ''type'' \<or> includes_str c '':''
                then strip_types c else c) (vm r)) []))\<rparr>
      else r)"
  by (simp add: executeCode_snd dispatch_def executeJavaScript_snd executeTypeScript_snd)

text \<open>
  C2 as stated fails: after a call that ran \<^verbatim>\<open>x = 1\<close> the sandbox of the exported
  runner holds \<^verbatim>\<open>x\<close>, and the next call runs in that same sandbox: \<^verbatim>\<open>typeof x\<close> is
  \<^verbatim>\<open>number\<close> there and \<^verbatim>\<open>undefined\<close> in the sandbox as the constructor made it.
\<close>

theorem sandbox_outlives_call:
  "vm module_runner ''x'' = None
   \<and> vm (snd (executeCode fragment_host module_runner ''x = 1'' ''javascript'' None 0 1)) ''x''
       = Some (JNum 1)
   \<and> observable (fst (executeCode fragment_host module_runner ''typeof x'' ''javascript'' None 0 1))
       = Inr (''undefined'', JNull, True)
   \<and> observable (fst (executeCode fragment_host
         (snd (executeCode fragment_host module_runner ''x = 1'' ''javascript'' None 0 1))
         ''typeof x'' ''javascript'' None 0 1))
       = Inr (''number'', JNull, True)"
  by code_simp

section \<open>Failures\<close>

text \<open>
  Whatever the script logged, a result with \<open>success = False\<close> has the empty output:
  the lines are in the array of \<^verbatim>\<open>executeJavaScript\<close>, which is lost when it raises.
\<close>

lemma failure_output_empty:
  "fst (executeCode h r c lang inp t0 t1) = Inr res \<Longrightarrow> \<not> success res \<Longrightarrow> output res = []"
  by (auto simp add: executeCode_fst_eq split: sum.splits)

text \<open>
  C3, at the script \<^verbatim>\<open>console.log("hi"); throw new Error("boom")\<close>: when the script
  raises, the array of the console methods holds the line \<^verbatim>\<open>hi\<close>, and the result of
  Execute has the empty output.
\<close>

theorem partial_output_lost_on_fault:
  "snd (snd (drive (fragment_run faulting (vm module_runner)) [])) = [''hi'']
   \<and> fst (executeCode fragment_host module_runner faulting ''javascript'' None 0 5)
       = Inr \<lparr>output = [], error = JStr ''boom'', executionTime = ''5ms'',
              language = ''javascript'', success = False\<rparr>"
  by code_simp

text \<open>
  A result that is returned has \<open>success = True\<close> and the error null, or
  \<open>success = False\<close> and as error the \<^verbatim>\<open>message\<close> property of the value caught.
\<close>

lemma returned_result_invariant:
  "fst (executeCode h r c lang inp t0 t1) = Inr res \<Longrightarrow>
     (success res \<and> error res = JNull)
     \<or> (\<not> success res \<and>
         (\<exists>e. fst (dispatch h r c lang (case inp of None \<Rightarrow> [] | Some i \<Rightarrow> i)) = Inl e
              \<and> get_message e = Inr (error res)))"
  by (auto simp add: executeCode_fst_eq split: sum.splits)

text \<open>
  C4, at the script \<^verbatim>\<open>throw null\<close>: the \<^verbatim>\<open>catch\<close> clause of \<^verbatim>\<open>executeCode\<close> reads
  \<^verbatim>\<open>err.message\<close> of the null it caught, which raises a TypeError, and the call raises
  instead of returning a result.
\<close>

theorem execute_raises_on_thrown_null:
  "fst (executeCode fragment_host module_runner ''throw null'' ''javascript'' None 0 5)
     = Inl (mkError ''TypeError'' ''Cannot read properties of null (reading 'message')'')"
  by code_simp

text \<open>
  The same clause on a value that is no object: after \<^verbatim>\<open>throw 1\<close> the property
  \<^verbatim>\<open>err.message\<close> is undefined, and that is the error of the result.
\<close>

lemma thrown_number_has_no_message:
  "fst (executeCode fragment_host module_runner ''throw 1'' ''javascript'' None 0 5)
     = Inr \<lparr>output = [], error = JUndefined, executionTime = ''5ms'',
            language = ''javascript'', success = False\<rparr>"
  by code_simp

section \<open>The value formatter\<close>

lemma formatOutput_cases:
  "formatOutput JNull = Inr ''null''"
  "formatOutput JUndefined = Inr ''undefined''"
  "formatOutput (JObject (Inr s) t m) = Inr s"
  "formatOutput (JObject (Inl e) t m) = t"
  "formatOutput (JBool b) = String (JBool b)"
  "formatOutput (JNum n) = String (JNum n)"
  "formatOutput (JStr s) = String (JStr s)"
  "formatOutput (JFun f) = String (JFun f)"
  by (simp_all add: formatOutput_def)

text \<open>
  On the values of the model the formatter raises only what \<^verbatim>\<open>value.toString()\<close>
  raises in the \<^verbatim>\<open>catch\<close> clause. (Outside the model are, besides the values named
  with the type, functions whose \<^verbatim>\<open>toString\<close> has been replaced and numbers from
  \<open>10^21\<close> on, which the host prints with an exponent.)
\<close>

lemma formatOutput_raises_only_from_toString:
  "formatOutput v = Inl e \<Longrightarrow> \<exists>e0 m. v = JObject (Inl e0) (Inl e) m"
  by (cases v) (auto simp add: formatOutput_def split: sum.splits if_splits)

text \<open>
  C5, at an object that cannot be serialized and has no \<^verbatim>\<open>toString\<close> method: the
  \<^verbatim>\<open>catch\<close> clause of \<^verbatim>\<open>formatOutput\<close> calls \<^verbatim>\<open>value.toString()\<close>, and the formatter
  raises the TypeError of that call instead of returning a string.
\<close>

theorem formatOutput_raises_on_unprintable:
  "formatOutput unprintable = Inl (mkError ''TypeError'' ''value.toString is not a function'')"
  by (simp add: formatOutput_def unprintable_def)

section \<open>The formatters\<close>

lemma dropWhile_snoc_shape:
  "\<not> P y \<Longrightarrow> \<exists>zs. dropWhile P (xs @ [y]) = zs @ [y]"
  by (induction xs) auto

lemma trim_semicolon: "endsWith (trim (c @ '';'')) '';''"
proof -
  have ns: "\<not> is_space (CHR '';'')" by (simp add: is_space_def)
  from dropWhile_snoc_shape [of is_space "CHR '';''" c] ns
  obtain zs where z: "dropWhile is_space (c @ '';'') = zs @ '';''" by auto
  show ?thesis
    by (simp add: trim_def z ns endsWith_def)
qed

text \<open>
  The formatter for javascript does what the others miss: a second pass over the code
  of a first pass makes no change and reports none.
\<close>

lemma formatJavaScript_second_pass:
  "changes (formatJavaScript (code (formatJavaScript c))) = []"
  using trim_semicolon [of c] by (simp add: formatJavaScript_def)

lemma formatCode_javascript:
  "formatCode parse ser c ''javascript'' = Inr (formatJavaScript c)"
  by (simp add: formatCode_def)

lemma formatCode_no_changes:
  "formatCode parse ser c lang = Inr res \<Longrightarrow> changes res = [] \<Longrightarrow> code res = c"
  by (auto simp add: formatCode_def formatJSON_def formatJavaScript_def formatHTML_def
        formatCSS_def split: sum.splits if_splits)

text \<open>
  C6, at the html \<^verbatim>\<open><p></p>\<close> and the css \<^verbatim>\<open>a{b:c;}\<close>: the second pass over the
  html returns the code it was given and still reports a change; the second pass over
  the css reports a change and puts one more space before the brace. The formatters for
  html and css never use the \<^verbatim>\<open>changes\<close> array they declare and return a fixed list,
  where \<^verbatim>\<open>formatJavaScript\<close> records a change only when it makes one.
\<close>

theorem html_css_second_pass_reports_changes:
  "formatCode fragment_parse (stringify 0) ''<p></p>'' ''html''
     = Inr \<lparr>code = ''<p>'' @ newline @ ''</p>'',
            changes = [''Added line breaks between HTML tags'']\<rparr>
   \<and> formatCode fragment_parse (stringify 0) (''<p>'' @ newline @ ''</p>'') ''html''
     = Inr \<lparr>code = ''<p>'' @ newline @ ''</p>'',
            changes = [''Added line breaks between HTML tags'']\<rparr>
   \<and> formatCode fragment_parse (stringify 0) ''a{b:c;}'' ''css''
     = Inr \<lparr>code = ''a {'' @ newline @ ''  b:c;'' @ newline @ ''}'',
            changes = [''Added proper CSS formatting'']\<rparr>
   \<and> formatCode fragment_parse (stringify 0) (''a {'' @ newline @ ''  b:c;'' @ newline @ ''}'') ''css''
     = Inr \<lparr>code = ''a  {'' @ newline @ ''  b:c;'' @ newline @ ''}'',
            changes = [''Added proper CSS formatting'']\<rparr>"
  by code_simp

section \<open>The strategies without a sandbox\<close>

lemma module_runner_limit: "maxCodeLength module_runner = 10000"
  by (simp add: module_runner_def constructor_def or_default_def)

lemma parse_brace: "JSON_parse fragment_host ''{'' = Inl ''Unexpected end of JSON input''"
  by code_simp

lemma parse_object:
  "JSON_parse fragment_host ''{\"b\":1,\"a\":2}''
     = Inr (JsonObj [(''b'', JsonNum 1), (''a'', JsonNum 2)])"
  by code_simp

lemma stringify_object:
  "JSON_stringify fragment_host (JsonObj [(''b'', JsonNum 1), (''a'', JsonNum 2)])
     = ''{'' @ newline @ ''  \"b\": 1,'' @ newline @ ''  \"a\": 2'' @ newline @ ''}''"
  by code_simp

text \<open>
  C7, as the code has it: for a code within the length limit, Execute for json returns,
  when the parser rejects the code, \<open>success = False\<close>, the empty output and as error
  the parser's message behind the prefix \<^verbatim>\<open>Invalid JSON: \<close>; when the parser accepts
  it, \<open>success = True\<close> and as output the indented serialization of the parsed value
  between the line \<^verbatim>\<open>Valid JSON:\<close>, an opening fence and a closing fence.
\<close>

theorem json_strategy_result:
  assumes "int (length c) \<le> maxCodeLength r"
  shows "fst (executeCode h r c ''json'' inp t0 t1) =
     (case JSON_parse h c of
        Inl m \<Rightarrow>
          Inr \<lparr>output = [], error = JStr (''Invalid JSON: '' @ m),
               executionTime = showInt (t1 - t0) @ ''ms'', language = ''json'', success = False\<rparr>
      | Inr v \<Rightarrow>
          Inr \<lparr>output = ''Valid JSON:'' @ newline @ ''```json'' @ newline
                       @ JSON_stringify h v @ newline @ ''```'',
               error = JNull,
               executionTime = showInt (t1 - t0) @ ''ms'', language = ''json'', success = True\<rparr>)"
  using assms
  by (simp add: executeCode_fst_eq dispatch_def executeJSON_def mkError_def split: sum.splits)

text \<open>Two instances: the text \<^verbatim>\<open>{\<close> and the text \<^verbatim>\<open>{"b":1,"a":2}\<close>.\<close>

theorem json_strategy_result_witness:
  "int (length ''{'') \<le> maxCodeLength module_runner
   \<and> fst (executeCode fragment_host module_runner ''{'' ''json'' None 0 5)
       = Inr \<lparr>output = [], error = JStr ''Invalid JSON: Unexpected end of JSON input'',
              executionTime = showInt (5 - 0) @ ''ms'', language = ''json'', success = False\<rparr>
   \<and> int (length ''{\"b\":1,\"a\":2}'') \<le> maxCodeLength module_runner
   \<and> fst (executeCode fragment_host module_runner ''{\"b\":1,\"a\":2}'' ''json'' None 0 5)
       = Inr \<lparr>output = ''Valid JSON:'' @ newline @ ''```json'' @ newline
                       @ (''{'' @ newline @ ''  \"b\": 1,'' @ newline @ ''  \"a\": 2'' @ newline @ ''}'')
                       @ newline @ ''```'',
              error = JNull,
              executionTime = showInt (5 - 0) @ ''ms'', language = ''json'', success = True\<rparr>"
  using json_strategy_result [of "''{''" module_runner fragment_host None 0 5]
    json_strategy_result [of "''{\"b\":1,\"a\":2}''" module_runner fragment_host None 0 5]
  by (simp add: module_runner_limit parse_brace parse_object stringify_object)

text \<open>
  C7 as stated fails: on the text \<^verbatim>\<open>{\<close> the parser's message is
  \<^verbatim>\<open>Unexpected end of JSON input\<close>, and the error of the result is that message behind
  the prefix \<^verbatim>\<open>Invalid JSON: \<close>, not the message itself.
\<close>

theorem json_error_message_is_prefixed:
  "JSON_parse fragment_host ''{'' = Inl ''Unexpected end of JSON input''
   \<and> fst (executeCode fragment_host module_runner ''{'' ''json'' None 0 5)
       = Inr \<lparr>output = [], error = JStr ''Invalid JSON: Unexpected end of JSON input'',
              executionTime = ''5ms'', language = ''json'', success = False\<rparr>"
  by code_simp

text \<open>
  C8, as the code has it: for every code within the length limit of the runner and every
  input, Execute for python returns \<open>success = True\<close>, the error null and an output
  made of the fixed notice, the line \<^verbatim>\<open>Code received:\<close>, the code, and the line
  \<^verbatim>\<open>Input received: \<close> with the input (empty when none was passed).
\<close>

theorem python_stub_within_length_limit:
  assumes "int (length c) \<le> maxCodeLength r"
  shows "fst (executeCode h r c ''python'' inp t0 t1) =
     Inr \<lparr>output = ''Python execution is not yet implemented in this demo version.'' @ newline
                  @ ''Code received:'' @ newline @ c @ newline
                  @ ''Input received: '' @ (case inp of None \<Rightarrow> [] | Some i \<Rightarrow> i),
          error = JNull,
          executionTime = showInt (t1 - t0) @ ''ms'', language = ''python'', success = True\<rparr>"
  using assms
  by (simp add: executeCode_fst_eq dispatch_def executePython_def)

theorem python_stub_within_length_limit_witness:
  "int (length ''print(1)'') \<le> maxCodeLength module_runner
   \<and> fst (executeCode fragment_host module_runner ''print(1)'' ''python'' (Some ''7'') 0 5) =
     Inr \<lparr>output = ''Python execution is not yet implemented in this demo version.'' @ newline
                  @ ''Code received:'' @ newline @ ''print(1)'' @ newline
                  @ ''Input received: 7'',
          error = JNull,
          executionTime = showInt (5 - 0) @ ''ms'', language = ''python'', success = True\<rparr>"
  using python_stub_within_length_limit
      [of "''print(1)''" module_runner fragment_host "Some ''7''" 0 5]
  by (simp add: module_runner_limit)

text \<open>
  C8 as stated fails: a code of 10001 characters is over the default limit of 10000, and
  Execute for python returns \<open>success = False\<close> with the message of the length check.
\<close>

theorem python_stub_rejects_long_code:
  "int (length long_code) = 10001
   \<and> maxCodeLength module_runner = 10000
   \<and> fst (executeCode fragment_host module_runner long_code ''python'' None 0 5)
     = Inr \<lparr>output = [],
            error = JStr ''Code too long. Maximum allowed: 10000 characters'',
            executionTime = ''5ms'', language = ''python'', success = False\<rparr>"
  by (simp add: long_code_def executeCode_fst_eq dispatch_def module_runner_limit mkError_def
        showInt_def showNat.simps digit_char_def)

section \<open>The timing field\<close>

lemma digit_char_is_digit: "is_digit (digit_char n)"
proof -
  have "n mod 10 < length ''0123456789''" by simp
  then have "''0123456789'' ! (n mod 10) \<in> set ''0123456789''" by (rule nth_mem)
  then show ?thesis by (simp only: is_digit_def digit_char_def)
qed

lemma showNat_digits: "showNat n \<noteq> [] \<and> list_all is_digit (showNat n)"
proof (induction n rule: showNat.induct)
  case (1 n)
  show ?case
  proof (cases "n < 10")
    case True
    then show ?thesis by (simp add: showNat.simps [of n] digit_char_is_digit)
  next
    case False
    with 1 show ?thesis by (simp add: showNat.simps [of n] digit_char_is_digit)
  qed
qed

text \<open>
  C9, as the code has it: every result that Execute returns has a field
  \<^verbatim>\<open>executionTime\<close> whose value is a string: the decimal text of the difference of the
  two clock readings of the call, followed by \<^verbatim>\<open>ms\<close>; when the clock did not go back,
  that text is a non-empty run of digits.
\<close>

theorem executionTime_is_count_with_unit:
  assumes "fst (executeCode h r c lang inp t0 t1) = Inr res"
  shows "executionTime res = showInt (t1 - t0) @ ''ms''
       \<and> (t0 \<le> t1 \<longrightarrow> showInt (t1 - t0) \<noteq> [] \<and> list_all is_digit (showInt (t1 - t0)))"
  using assms showNat_digits [of "nat (t1 - t0)"]
  by (auto simp add: executeCode_fst_eq showInt_def split: sum.splits)

theorem executionTime_is_count_with_unit_witness:
  "fst (executeCode fragment_host module_runner ''pass'' ''python'' None 100 105)
     = Inr \<lparr>output = ''Python execution is not yet implemented in this demo version.'' @ newline
                  @ ''Code received:'' @ newline @ ''pass'' @ newline @ ''Input received: '',
            error = JNull, executionTime = ''5ms'', language = ''python'', success = True\<rparr>
   \<and> ''5ms'' = showInt (105 - 100) @ ''ms''
   \<and> (100::int) \<le> 105 \<and> list_all is_digit (showInt (105 - 100))"
proof -
  have f: "fst (executeCode fragment_host module_runner ''pass'' ''python'' None 100 105)
     = Inr \<lparr>output = ''Python execution is not yet implemented in this demo version.'' @ newline
                  @ ''Code received:'' @ newline @ ''pass'' @ newline @ ''Input received: '',
            error = JNull, executionTime = ''5ms'', language = ''python'', success = True\<rparr>"
    by code_simp
  show ?thesis
    using executionTime_is_count_with_unit [OF f] f by simp
qed

text \<open>
  C9 as stated fails: for clock readings 100 and 105 the value of the field is the
  string \<^verbatim>\<open>5ms\<close>, which is not made of digits; the field is not an integer.
\<close>

theorem executionTime_is_not_an_integer:
  "map_sum id executionTime
      (fst (executeCode fragment_host module_runner ''pass'' ''python'' None 100 105)) = Inr ''5ms''
   \<and> \<not> list_all is_digit ''5ms''"
  by code_simp

section \<open>TypeScript against JavaScript\<close>

text \<open>
  The rewrite is textual. In an object literal it takes the colon, the value and, since
  the braces are in the class of the first expression, the closing brace as well.
\<close>

lemma strip_types_object_literal: "strip_types ''o = {a: b}'' = ''o = {a''"
  by code_simp

text \<open>
  The script \<^verbatim>\<open>console.log("a:b")\<close> is in the fragment, which has no construct of
  TypeScript. It contains a colon, so \<^verbatim>\<open>executeTypeScript\<close> rewrites it; the first
  expression removes \<^verbatim>\<open>:b\<close> from inside the string.
\<close>

lemma colon_script_runs:
  "CHR '':'' \<in> set colon_script
   \<and> parse_script colon_script = Some [SConsole Log [EStr ''a:b'']]
   \<and> includes_str colon_script '':''
   \<and> strip_types colon_script = ''console.log(\"a\")''
   \<and> observable (fst (executeCode fragment_host module_runner colon_script ''typescript'' None 0 1))
       = Inr (''a'' @ newline @ ''1'', JNull, True)
   \<and> observable (fst (executeCode fragment_host module_runner colon_script ''javascript'' None 0 1))
       = Inr (''a:b'' @ newline @ ''1'', JNull, True)"
  by code_simp


end
